theory Spec2Isabelle
  imports Main "HOL-Library.AList" "HOL-Library.Sublist"
begin

section \<open>JavaScript values\<close>

text \<open>
  The values that cross the server actions and the provider: \<open>undefined\<close>, \<open>null\<close>,
  booleans, strings, arrays and plain objects. An object is the list of its own
  properties in insertion order; a property is read through \<open>map_of\<close>.
\<close>

datatype jsval =
    JUndefined
  | JNull
  | JBool bool
  | JStr string
  | JArr "jsval list"
  | JObj "(string \<times> jsval) list"

type_synonym obj = "(string \<times> jsval) list"

text \<open>What a \<open>throw\<close> or a rejected promise carries: an \<open>Error\<close> with its message, a
  \<open>Response\<close> with the value of \<open>headers.get('Location')\<close> (\<open>None\<close> for \<open>null\<close>), or
  any other value.\<close>

datatype thrown =
    ThrownError string
  | ThrownResponse "string option"
  | ThrownOther jsval

datatype 'a outcome = Resolved 'a | Rejected thrown

text \<open>\<open>ToBoolean\<close>: what \<open>if (v)\<close> and \<open>v ? a : b\<close> test.\<close>

fun truthy :: "jsval \<Rightarrow> bool" where
  "truthy JUndefined = False"
| "truthy JNull = False"
| "truthy (JBool b) = b"
| "truthy (JStr s) = (s \<noteq> [])"
| "truthy (JArr xs) = True"
| "truthy (JObj kvs) = True"

text \<open>\<open>!v\<close>\<close>

definition js_not :: "jsval \<Rightarrow> bool" where
  "js_not v = (\<not> truthy v)"

text \<open>\<open>'k' in ob\<close> for an own property\<close>

definition has_key :: "obj \<Rightarrow> string \<Rightarrow> bool" where
  "has_key ob k = (case map_of ob k of None \<Rightarrow> False | Some v \<Rightarrow> True)"

text \<open>\<open>ob.k\<close> on an object: a missing property reads as \<open>undefined\<close>.\<close>

definition get_prop :: "obj \<Rightarrow> string \<Rightarrow> jsval" where
  "get_prop ob k = (case map_of ob k of None \<Rightarrow> JUndefined | Some v \<Rightarrow> v)"

text \<open>\<open>v?.k\<close>: \<open>undefined\<close> on \<open>null\<close> and \<open>undefined\<close>, the property of an object, and
  \<open>undefined\<close> on a primitive or an array (none of which has the properties read here).
  On a truthy value it is also what \<open>v.k\<close> reads.\<close>

fun opt_chain :: "jsval \<Rightarrow> string \<Rightarrow> jsval" where
  "opt_chain (JObj kvs) k = get_prop kvs k"
| "opt_chain v k = JUndefined"

text \<open>\<open>String(v)\<close>; inside an array \<open>null\<close> and \<open>undefined\<close> print as the empty string.\<close>

fun join_comma :: "string list \<Rightarrow> string" where
  "join_comma [] = []"
| "join_comma [s] = s"
| "join_comma (s # t # ss) = s @ '','' @ join_comma (t # ss)"

fun js_String :: "jsval \<Rightarrow> string" where
  "js_String JUndefined = ''undefined''"
| "js_String JNull = ''null''"
| "js_String (JBool b) = (if b then ''true'' else ''false'')"
| "js_String (JStr s) = s"
| "js_String (JArr xs) =
     join_comma (map (\<lambda>v. case v of JUndefined \<Rightarrow> [] | JNull \<Rightarrow> [] | _ \<Rightarrow> js_String v) xs)"
| "js_String (JObj kvs) = ''[object Object]''"

text \<open>\<open>s.includes(n)\<close>: \<open>n\<close> occurs in \<open>s\<close> as a contiguous substring.\<close>

fun str_includes :: "string \<Rightarrow> string \<Rightarrow> bool" where
  "str_includes [] n = (n = [])"
| "str_includes (c # cs) n = (prefix n (c # cs) \<or> str_includes cs n)"

section \<open>Request middleware\<close>

text \<open>The object literal \<open>{ user: null }\<close>.\<close>

definition no_user :: obj where
  "no_user = [(''user'', JNull)]"

text \<open>\<open>hydratedAuth\<close> of \<open>authkitMiddleware\<close>: the client-safe payload built from the
  result of \<open>authkit.withAuth\<close>. The \<open>!\<close> after \<open>authResult.sessionId\<close> is a type
  assertion only and reads the property as it is.\<close>

definition hydratedAuth :: "obj \<Rightarrow> obj" where
  "hydratedAuth authResult =
     (if truthy (get_prop authResult ''user'')
      then [(''user'', get_prop authResult ''user''),
            (''sessionId'', get_prop authResult ''sessionId''),
            (''organizationId'', get_prop authResult ''organizationId''),
            (''role'', get_prop authResult ''role''),
            (''roles'', get_prop authResult ''roles''),
            (''permissions'', get_prop authResult ''permissions''),
            (''entitlements'', get_prop authResult ''entitlements''),
            (''featureFlags'', opt_chain (get_prop authResult ''claims'') ''feature_flags''),
            (''impersonator'', get_prop authResult ''impersonator'')]
      else no_user)"

text \<open>The two channels handed to \<open>args.next\<close>: \<open>context.auth()\<close> and
  \<open>sendContext.auth()\<close>.\<close>

record channels =
  context_auth :: obj
  sendContext_auth :: obj

text \<open>\<open>authkitMiddleware\<close>: the module-level latch \<open>configValidated\<close> is passed in and
  returned; \<open>validateConfig\<close> is what the call throws (\<open>None\<close> when it returns) and
  \<open>withAuth\<close> how \<open>authkit.withAuth(args.request)\<close> settles.\<close>

definition authkitMiddleware :: "bool \<Rightarrow> thrown option \<Rightarrow> obj outcome \<Rightarrow> bool \<times> channels outcome" where
  "authkitMiddleware configValidated validateConfig withAuth =
     (case (if configValidated then None else validateConfig) of
        Some e \<Rightarrow> (configValidated, Rejected e)
      | None \<Rightarrow>
          (case withAuth of
             Rejected e \<Rightarrow> (True, Rejected e)
           | Resolved authResult \<Rightarrow>
               (True, Resolved \<lparr>context_auth = authResult,
                               sendContext_auth = hydratedAuth authResult\<rparr>)))"

section \<open>Server actions\<close>

text \<open>
  The actions read \<open>auth = getAuthFromContext()\<close>, the full result the middleware put
  on the server channel; it is the parameter \<open>auth\<close>. The session service is external:
  \<open>getSession\<close> is how \<open>authkit.getSession(request)\<close> settles and \<open>refreshSession\<close> how
  \<open>authkit.refreshSession(session, organizationId)\<close> settles for given arguments. Each
  action returns the calls it made to the service, in order, and how it settles.
\<close>

record authkit =
  getSession :: "jsval outcome"
  refreshSession :: "obj \<Rightarrow> jsval \<Rightarrow> obj outcome"

datatype call = GetSession | RefreshSession obj jsval

definition getAuthAction :: "obj \<Rightarrow> jsval \<Rightarrow> obj" where
  "getAuthAction auth options =
     (if js_not (get_prop auth ''user'') then no_user
      else AList.delete ''accessToken'' auth)"

definition refreshAuthAction :: "authkit \<Rightarrow> obj \<Rightarrow> jsval \<Rightarrow> call list \<times> obj outcome" where
  "refreshAuthAction ak auth options =
     (if js_not (get_prop auth ''user'') \<or> js_not (get_prop auth ''accessToken'')
          \<or> js_not (get_prop auth ''sessionId'')
      then ([], Resolved no_user)
      else
        (case getSession ak of
           Rejected e \<Rightarrow> ([GetSession], Rejected e)
         | Resolved session \<Rightarrow>
             if js_not session \<or> js_not (opt_chain session ''refreshToken'')
             then ([GetSession], Resolved no_user)
             else
               (let arg = [(''accessToken'', get_prop auth ''accessToken''),
                           (''refreshToken'', opt_chain session ''refreshToken''),
                           (''user'', get_prop auth ''user''),
                           (''impersonator'', get_prop auth ''impersonator'')];
                    org = opt_chain options ''organizationId''
                in case refreshSession ak arg org of
                     Rejected e \<Rightarrow> ([GetSession, RefreshSession arg org], Rejected e)
                   | Resolved result \<Rightarrow>
                       ([GetSession, RefreshSession arg org],
                        Resolved
                          (if js_not (get_prop result ''user'') then no_user
                           else AList.update ''featureFlags''
                                  (opt_chain (get_prop result ''claims'') ''feature_flags'')
                                  (AList.delete ''claims''
                                     (AList.delete ''accessToken'' result)))))))"

definition switchToOrganizationAction :: "authkit \<Rightarrow> obj \<Rightarrow> obj \<Rightarrow> call list \<times> obj outcome" where
  "switchToOrganizationAction ak auth data =
     (if js_not (get_prop auth ''user'') \<or> js_not (get_prop auth ''accessToken'')
      then ([], Resolved no_user)
      else
        (case getSession ak of
           Rejected e \<Rightarrow> ([GetSession], Rejected e)
         | Resolved session \<Rightarrow>
             if js_not session \<or> js_not (opt_chain session ''refreshToken'')
             then ([GetSession], Resolved no_user)
             else
               (let arg = [(''accessToken'', get_prop auth ''accessToken''),
                           (''refreshToken'', opt_chain session ''refreshToken''),
                           (''user'', get_prop auth ''user''),
                           (''impersonator'', get_prop auth ''impersonator'')];
                    org = get_prop data ''organizationId''
                in case refreshSession ak arg org of
                     Rejected e \<Rightarrow> ([GetSession, RefreshSession arg org], Rejected e)
                   | Resolved result \<Rightarrow>
                       ([GetSession, RefreshSession arg org],
                        Resolved
                          (if js_not (get_prop result ''user'') then no_user
                           else AList.update ''featureFlags''
                                  (opt_chain (get_prop result ''claims'') ''feature_flags'')
                                  (AList.delete ''claims''
                                     (AList.delete ''accessToken'' result)))))))"

section \<open>Client auth state\<close>

text \<open>The state of \<open>AuthKitProvider\<close>: one \<open>useState\<close> cell per mirrored field, and
  \<open>loading\<close>.\<close>

record client_state =
  user :: jsval
  sessionId :: jsval
  organizationId :: jsval
  role :: jsval
  roles :: jsval
  permissions :: jsval
  entitlements :: jsval
  featureFlags :: jsval
  impersonator :: jsval
  loading :: bool

text \<open>The initial values of the cells, from \<open>initialAuth = hydratedAuth ?? { user: null }\<close>
  (\<open>None\<close> when the start context has no \<open>auth\<close> accessor).\<close>

definition initial_state :: "obj option \<Rightarrow> client_state" where
  "initial_state hydrated =
     (let initialAuth = (case hydrated of None \<Rightarrow> no_user | Some a \<Rightarrow> a)
      in \<lparr>user = get_prop initialAuth ''user'',
          sessionId = (if truthy (get_prop initialAuth ''user'')
                       then get_prop initialAuth ''sessionId'' else JUndefined),
          organizationId = (if has_key initialAuth ''organizationId''
                            then get_prop initialAuth ''organizationId'' else JUndefined),
          role = (if has_key initialAuth ''role'' then get_prop initialAuth ''role'' else JUndefined),
          roles = (if has_key initialAuth ''roles'' then get_prop initialAuth ''roles'' else JUndefined),
          permissions = (if has_key initialAuth ''permissions''
                         then get_prop initialAuth ''permissions'' else JUndefined),
          entitlements = (if has_key initialAuth ''entitlements''
                          then get_prop initialAuth ''entitlements'' else JUndefined),
          featureFlags = (if has_key initialAuth ''featureFlags''
                          then get_prop initialAuth ''featureFlags'' else JUndefined),
          impersonator = (if has_key initialAuth ''impersonator''
                          then get_prop initialAuth ''impersonator'' else JUndefined),
          loading = False\<rparr>)"

text \<open>A call of one of the state setters.\<close>

datatype setter =
    SetUser jsval
  | SetSessionId jsval
  | SetOrganizationId jsval
  | SetRole jsval
  | SetRoles jsval
  | SetPermissions jsval
  | SetEntitlements jsval
  | SetFeatureFlags jsval
  | SetImpersonator jsval
  | SetLoading bool

fun apply_setter :: "setter \<Rightarrow> client_state \<Rightarrow> client_state" where
  "apply_setter (SetUser v) s = s\<lparr>user := v\<rparr>"
| "apply_setter (SetSessionId v) s = s\<lparr>sessionId := v\<rparr>"
| "apply_setter (SetOrganizationId v) s = s\<lparr>organizationId := v\<rparr>"
| "apply_setter (SetRole v) s = s\<lparr>role := v\<rparr>"
| "apply_setter (SetRoles v) s = s\<lparr>roles := v\<rparr>"
| "apply_setter (SetPermissions v) s = s\<lparr>permissions := v\<rparr>"
| "apply_setter (SetEntitlements v) s = s\<lparr>entitlements := v\<rparr>"
| "apply_setter (SetFeatureFlags v) s = s\<lparr>featureFlags := v\<rparr>"
| "apply_setter (SetImpersonator v) s = s\<lparr>impersonator := v\<rparr>"
| "apply_setter (SetLoading b) s = s\<lparr>loading := b\<rparr>"

text \<open>
  An operation of the provider is an \<open>async\<close> function with one \<open>await\<close>. The setters it
  calls before the \<open>await\<close> form one batch and those it calls after it another; React
  applies the setters of a batch, in order, in one state transition, and consumers see
  the state after each batch.
\<close>

definition commit :: "client_state \<Rightarrow> setter list \<Rightarrow> client_state" where
  "commit s batch = fold apply_setter batch s"

fun renders :: "client_state \<Rightarrow> setter list list \<Rightarrow> client_state list" where
  "renders s [] = []"
| "renders s (batch # batches) = commit s batch # renders (commit s batch) batches"

text \<open>\<open>error instanceof Error ? { error: error.message } : { error: String(error) }\<close>\<close>

definition error_descriptor :: "thrown \<Rightarrow> jsval" where
  "error_descriptor error =
     (case error of
        ThrownError message \<Rightarrow> JObj [(''error'', JStr message)]
      | ThrownResponse location \<Rightarrow> JObj [(''error'', JStr ''[object Response]'')]
      | ThrownOther v \<Rightarrow> JObj [(''error'', JStr (js_String v))])"


text \<open>\<open>handleSwitchToOrganization\<close>: \<open>action\<close> is how the awaited
  \<open>switchToOrganizationAction\<close> call settles.\<close>

definition handleSwitchToOrganization :: "obj outcome \<Rightarrow> setter list list \<times> jsval outcome" where
  "handleSwitchToOrganization action =
     (case action of
        Resolved auth \<Rightarrow>
          if js_not (get_prop auth ''user'')
          then ([[SetLoading True],
                 [SetUser JNull, SetSessionId JUndefined, SetOrganizationId JUndefined,
                  SetRole JUndefined, SetRoles JUndefined, SetPermissions JUndefined,
                  SetEntitlements JUndefined, SetFeatureFlags JUndefined,
                  SetImpersonator JUndefined, SetLoading False]],
                Resolved JUndefined)
          else ([[SetLoading True],
                 [SetUser (get_prop auth ''user''),
                  SetSessionId (get_prop auth ''sessionId''),
                  SetOrganizationId (get_prop auth ''organizationId''),
                  SetRole (get_prop auth ''role''),
                  SetRoles (get_prop auth ''roles''),
                  SetPermissions (get_prop auth ''permissions''),
                  SetEntitlements (get_prop auth ''entitlements''),
                  SetFeatureFlags (get_prop auth ''featureFlags''),
                  SetImpersonator (get_prop auth ''impersonator''),
                  SetLoading False]],
                Resolved JUndefined)
      | Rejected error \<Rightarrow>
          ([[SetLoading True], [SetLoading False]], Resolved (error_descriptor error)))"

subsection \<open>Sign-out\<close>

text \<open>The two ways \<open>handleSignOut\<close> leaves the page: assigning \<open>window.location.href\<close>
  and \<open>navigate({ to: location })\<close>.\<close>

datatype navigation = LocationHref string | RouterNavigate string

text \<open>\<open>handleSignOut\<close>: \<open>host\<close> is \<open>window.location.host\<close> and \<open>signOut\<close> how the awaited
  server function settles.\<close>

definition handleSignOut :: "string \<Rightarrow> jsval outcome \<Rightarrow> navigation list \<times> jsval outcome" where
  "handleSignOut host signOut =
     (case signOut of
        Resolved v \<Rightarrow> ([], Resolved JUndefined)
      | Rejected error \<Rightarrow>
          (case error of
             ThrownResponse (Some location) \<Rightarrow>
               if location \<noteq> []
               then (let isExternal = (prefix ''http'' location \<and> \<not> str_includes location host)
                     in if isExternal then ([LocationHref location], Resolved JUndefined)
                        else ([RouterNavigate location], Resolved JUndefined))
               else ([], Rejected error)
           | _ \<Rightarrow> ([], Rejected error)))"

subsection \<open>Session-expiry watcher\<close>

text \<open>The \<open>onSessionExpired\<close> prop: \<open>false\<close>, left out, or a function.\<close>

datatype onSessionExpired = Disabled | NotGiven | Callback

datatype effect = CalledOnSessionExpired | Reloaded

text \<open>
  One run of the effect: its closure owns the flag \<open>visibilityChangedCalled\<close>.
  \<open>in_flight\<close> counts the \<open>checkSessionAction\<close> calls that have not settled,
  \<open>issued\<close> all calls made, and \<open>effects\<close> lists the calls of the callback and of
  \<open>window.location.reload\<close>.
\<close>

record watcher =
  visibilityChangedCalled :: bool
  in_flight :: nat
  issued :: nat
  effects :: "effect list"

text \<open>
  What the event loop delivers: a \<open>visibilitychange\<close> or \<open>focus\<close> event (both run
  \<open>handleVisibilityChange\<close>), with whether \<open>document.visibilityState\<close> is \<open>'visible'\<close>
  then; or the settling of a pending \<open>checkSessionAction\<close> call, after which the rest
  of the handler runs without interruption.
\<close>

datatype watcher_event = Fire bool | Settle "jsval outcome"

text \<open>The \<open>catch\<close> block.\<close>

definition on_catch :: "onSessionExpired \<Rightarrow> thrown \<Rightarrow> effect list" where
  "on_catch opt error =
     (case error of
        ThrownError message \<Rightarrow>
          if str_includes message ''Failed to fetch''
          then (case opt of Callback \<Rightarrow> [CalledOnSessionExpired] | _ \<Rightarrow> [Reloaded])
          else []
      | _ \<Rightarrow> [])"

text \<open>With \<open>onSessionExpired === false\<close> the effect returns before it registers a
  listener. A callback that throws does so inside \<open>catch\<close>, and \<open>finally\<close> still runs.\<close>

fun step :: "onSessionExpired \<Rightarrow> watcher \<Rightarrow> watcher_event \<Rightarrow> watcher" where
  "step Disabled w ev = w"
| "step opt w (Fire visible) =
     (if visibilityChangedCalled w then w
      else if visible
        then w\<lparr>visibilityChangedCalled := True,
               in_flight := Suc (in_flight w),
               issued := Suc (issued w)\<rparr>
        else w)"
| "step opt w (Settle settled) =
     (if in_flight w = 0 then w
      else
        (let caught =
               (case settled of
                  Resolved hasSession \<Rightarrow>
                    if js_not hasSession then Some (ThrownError ''Session expired'') else None
                | Rejected e \<Rightarrow> Some e)
         in w\<lparr>effects := effects w @ (case caught of None \<Rightarrow> [] | Some e \<Rightarrow> on_catch opt e),
               visibilityChangedCalled := False,
               in_flight := in_flight w - 1\<rparr>))"









section \<open>Properties stated by the specification\<close>

text \<open>The resolver's guarantee of section 4.1: a result with a user has a session id.\<close>

definition resolver_guarantee :: "obj \<Rightarrow> bool" where
  "resolver_guarantee res =
     (if truthy (get_prop res ''user'') then get_prop res ''sessionId'' \<noteq> JUndefined else True)"

text \<open>The invariant of section 3 on a sanitized payload.\<close>

definition sessionId_iff_user :: "obj \<Rightarrow> bool" where
  "sessionId_iff_user payload =
     ((get_prop payload ''sessionId'' \<noteq> JUndefined) = (get_prop payload ''user'' \<noteq> JNull))"

text \<open>The host of an absolute \<open>http\<close> or \<open>https\<close> URL: what follows the scheme, up to the
  first \<open>/\<close>, \<open>?\<close> or \<open>#\<close>. A destination is external in the specification's sense when
  it has a host and that host is not the page's.\<close>

definition spec_host_of :: "string \<Rightarrow> string option" where
  "spec_host_of location =
     (if prefix ''https://'' location
      then Some (takeWhile (\<lambda>c. c \<notin> set ''/?#'') (drop 8 location))
      else if prefix ''http://'' location
      then Some (takeWhile (\<lambda>c. c \<notin> set ''/?#'') (drop 7 location))
      else None)"

definition spec_external :: "string \<Rightarrow> string \<Rightarrow> bool" where
  "spec_external host location =
     (case spec_host_of location of None \<Rightarrow> False | Some h \<Rightarrow> h \<noteq> host)"

section \<open>Sample values\<close>

text \<open>The user of the provider's test suite.\<close>

definition mockUser :: jsval where
  "mockUser = JObj
     [(''id'', JStr ''user_123''), (''email'', JStr ''test@example.com''),
      (''firstName'', JStr ''Test''), (''lastName'', JStr ''User''),
      (''emailVerified'', JBool True), (''profilePictureUrl'', JNull),
      (''createdAt'', JStr ''2024-01-01T00:00:00.000Z''),
      (''updatedAt'', JStr ''2024-01-01T00:00:00.000Z''),
      (''lastSignInAt'', JStr ''2024-01-01T00:00:00.000Z''), (''externalId'', JNull),
      (''locale'', JStr ''en''), (''metadata'', JObj []), (''object'', JStr ''user'')]"

text \<open>A session service whose session holds a refresh token and whose refresh
  operation resolves with \<open>result\<close>.\<close>

definition mock_authkit :: "obj \<Rightarrow> authkit" where
  "mock_authkit result =
     \<lparr>getSession = Resolved (JObj [(''refreshToken'', JStr ''refresh_1'')]),
      refreshSession = (\<lambda>arg org. Resolved result)\<rparr>"

text \<open>A logout URL of the identity provider that returns to the application.\<close>

definition logout_url :: string where
  "logout_url = ''https://api.workos.com/user_management/sessions/logout?session_id=session_123&return_to=https%3A%2F%2Fapp.example.com%2F''"

text \<open>A full auth result as the resolver returns it for a signed-in request, and the
  result of a token refresh that switched the organization.\<close>

definition fullAuth :: obj where
  "fullAuth =
     [(''user'', mockUser), (''accessToken'', JStr ''token_1''),
      (''sessionId'', JStr ''session_123''), (''organizationId'', JStr ''org_123''),
      (''role'', JStr ''admin''), (''roles'', JArr [JStr ''admin'', JStr ''user'']),
      (''permissions'', JArr [JStr ''read'', JStr ''write'']),
      (''entitlements'', JArr [JStr ''feature_a'']),
      (''claims'', JObj [(''feature_flags'', JArr [JStr ''flag_1''])])]"

definition refreshedAuth :: obj where
  "refreshedAuth =
     [(''user'', mockUser), (''accessToken'', JStr ''token_2''),
      (''sessionId'', JStr ''new_session''), (''organizationId'', JStr ''org_456''),
      (''claims'', JObj [(''feature_flags'', JArr [JStr ''flag_2''])])]"

section \<open>Reading and rebuilding objects\<close>

lemma has_key_no_user: "has_key no_user k = (k = ''user'')"
  by (simp add: has_key_def no_user_def)

lemma get_prop_no_user: "get_prop no_user k = (if k = ''user'' then JNull else JUndefined)"
  by (simp add: get_prop_def no_user_def)

lemma has_key_delete: "has_key (AList.delete k ob) k' = (k' \<noteq> k \<and> has_key ob k')"
  by (simp add: has_key_def delete_conv')

lemma has_key_update: "has_key (AList.update k v ob) k' = (k' = k \<or> has_key ob k')"
  by (simp add: has_key_def update_conv')

lemma get_prop_delete:
  "get_prop (AList.delete k ob) k' = (if k' = k then JUndefined else get_prop ob k')"
  by (simp add: get_prop_def delete_conv')

lemma get_prop_update:
  "get_prop (AList.update k v ob) k' = (if k' = k then v else get_prop ob k')"
  by (simp add: get_prop_def update_conv')



lemma truthy_not_null: "truthy v \<Longrightarrow> v \<noteq> JNull"
  by (cases v) simp_all

lemma truthy_mockUser: "truthy mockUser"
  by (simp add: mockUser_def)

section \<open>What the middleware and the actions can return\<close>

lemma middleware_payload:
  assumes "authkitMiddleware cv vc wa = (cv', Resolved ch)"
  shows "\<exists>authResult. wa = Resolved authResult \<and> context_auth ch = authResult
           \<and> sendContext_auth ch = hydratedAuth authResult"
  using assms
  by (auto simp: authkitMiddleware_def split: option.splits outcome.splits if_splits)

text \<open>A resolved refresh is either \<open>{ user: null }\<close> or the projection of a result of
  the refresh operation that has a user.\<close>

lemma refreshAuthAction_resolved:
  assumes "refreshAuthAction ak auth options = (cs, Resolved r)"
  shows "r = no_user \<or>
         (\<exists>arg org result. refreshSession ak arg org = Resolved result
            \<and> truthy (get_prop result ''user'')
            \<and> r = AList.update ''featureFlags''
                  (opt_chain (get_prop result ''claims'') ''feature_flags'')
                  (AList.delete ''claims'' (AList.delete ''accessToken'' result)))"
  using assms
  by (auto simp: refreshAuthAction_def js_not_def Let_def split: if_splits outcome.splits)

lemma switchToOrganizationAction_resolved:
  assumes "switchToOrganizationAction ak auth data = (cs, Resolved r)"
  shows "r = no_user \<or>
         (\<exists>arg org result. refreshSession ak arg org = Resolved result
            \<and> truthy (get_prop result ''user'')
            \<and> r = AList.update ''featureFlags''
                  (opt_chain (get_prop result ''claims'') ''feature_flags'')
                  (AList.delete ''claims'' (AList.delete ''accessToken'' result)))"
  using assms
  by (auto simp: switchToOrganizationAction_def js_not_def Let_def split: if_splits outcome.splits)

lemma hydratedAuth_keys:
  "has_key (hydratedAuth authResult) k \<Longrightarrow>
     k \<in> {''user'', ''sessionId'', ''organizationId'', ''role'', ''roles'', ''permissions'',
          ''entitlements'', ''featureFlags'', ''impersonator''}"
  by (auto simp: hydratedAuth_def has_key_def no_user_def split: if_splits)

lemma projection_session:
  assumes "truthy (get_prop result ''user'')" and "resolver_guarantee result"
  shows "sessionId_iff_user
           (AList.update ''featureFlags'' v
              (AList.delete ''claims'' (AList.delete ''accessToken'' result)))"
  using assms truthy_not_null [OF assms(1)]
  by (simp add: sessionId_iff_user_def resolver_guarantee_def get_prop_update get_prop_delete)

section \<open>The sample values, evaluated\<close>

lemma middleware_fullAuth:
  "authkitMiddleware False None (Resolved fullAuth)
     = (True, Resolved \<lparr>context_auth = fullAuth,
          sendContext_auth =
            [(''user'', mockUser), (''sessionId'', JStr ''session_123''),
             (''organizationId'', JStr ''org_123''), (''role'', JStr ''admin''),
             (''roles'', JArr [JStr ''admin'', JStr ''user'']),
             (''permissions'', JArr [JStr ''read'', JStr ''write'']),
             (''entitlements'', JArr [JStr ''feature_a'']),
             (''featureFlags'', JArr [JStr ''flag_1'']),
             (''impersonator'', JUndefined)]\<rparr>)"
  by (simp add: authkitMiddleware_def hydratedAuth_def fullAuth_def get_prop_def truthy_mockUser)

lemma getAuth_fullAuth:
  "getAuthAction fullAuth JUndefined
     = [(''user'', mockUser), (''sessionId'', JStr ''session_123''),
        (''organizationId'', JStr ''org_123''), (''role'', JStr ''admin''),
        (''roles'', JArr [JStr ''admin'', JStr ''user'']),
        (''permissions'', JArr [JStr ''read'', JStr ''write'']),
        (''entitlements'', JArr [JStr ''feature_a'']),
        (''claims'', JObj [(''feature_flags'', JArr [JStr ''flag_1''])])]"
  by (simp add: getAuthAction_def js_not_def fullAuth_def get_prop_def truthy_mockUser)

lemma refresh_fullAuth:
  "refreshAuthAction (mock_authkit refreshedAuth) fullAuth JUndefined
     = ([GetSession,
         RefreshSession [(''accessToken'', JStr ''token_1''), (''refreshToken'', JStr ''refresh_1''),
                         (''user'', mockUser), (''impersonator'', JUndefined)] JUndefined],
        Resolved [(''user'', mockUser), (''sessionId'', JStr ''new_session''),
                  (''organizationId'', JStr ''org_456''), (''featureFlags'', JArr [JStr ''flag_2''])])"
  by (simp add: refreshAuthAction_def mock_authkit_def js_not_def fullAuth_def refreshedAuth_def
      get_prop_def truthy_mockUser)

lemma switch_fullAuth:
  "switchToOrganizationAction (mock_authkit refreshedAuth) fullAuth
       [(''organizationId'', JStr ''org_456'')]
     = ([GetSession,
         RefreshSession [(''accessToken'', JStr ''token_1''), (''refreshToken'', JStr ''refresh_1''),
                         (''user'', mockUser), (''impersonator'', JUndefined)] (JStr ''org_456'')],
        Resolved [(''user'', mockUser), (''sessionId'', JStr ''new_session''),
                  (''organizationId'', JStr ''org_456''), (''featureFlags'', JArr [JStr ''flag_2''])])"
  by (simp add: switchToOrganizationAction_def mock_authkit_def js_not_def fullAuth_def
      refreshedAuth_def get_prop_def truthy_mockUser)

section \<open>The sanitized payloads\<close>

text \<open>
  C1. No sanitized payload has an \<open>accessToken\<close> property: not the hydration payload
  of the middleware, nor the results of \<open>getAuthAction\<close>, \<open>refreshAuthAction\<close> and
  \<open>switchToOrganizationAction\<close>, whatever properties the resolved auth result has.
\<close>

theorem sanitized_payloads_have_no_accessToken:
  "(authkitMiddleware cv vc wa = (cv', Resolved ch)
      \<longrightarrow> \<not> has_key (sendContext_auth ch) ''accessToken'')
   \<and> \<not> has_key (getAuthAction auth options) ''accessToken''
   \<and> (refreshAuthAction ak auth options = (cs, Resolved r) \<longrightarrow> \<not> has_key r ''accessToken'')
   \<and> (switchToOrganizationAction ak auth data = (cs', Resolved r')
        \<longrightarrow> \<not> has_key r' ''accessToken'')"
proof (intro conjI impI)
  assume "authkitMiddleware cv vc wa = (cv', Resolved ch)"
  from middleware_payload [OF this] obtain authResult
    where "sendContext_auth ch = hydratedAuth authResult" by blast
  then show "\<not> has_key (sendContext_auth ch) ''accessToken''"
    using hydratedAuth_keys [of authResult "''accessToken''"] by auto
next
  show "\<not> has_key (getAuthAction auth options) ''accessToken''"
    by (simp add: getAuthAction_def has_key_no_user has_key_delete)
next
  assume "refreshAuthAction ak auth options = (cs, Resolved r)"
  from refreshAuthAction_resolved [OF this]
  show "\<not> has_key r ''accessToken''"
    by (auto simp: has_key_no_user has_key_delete has_key_update)
next
  assume "switchToOrganizationAction ak auth data = (cs', Resolved r')"
  from switchToOrganizationAction_resolved [OF this]
  show "\<not> has_key r' ''accessToken''"
    by (auto simp: has_key_no_user has_key_delete has_key_update)
qed

theorem sanitized_payloads_have_no_accessToken_witness:
  "has_key fullAuth ''accessToken''
   \<and> \<not> has_key [(''user'', mockUser), (''sessionId'', JStr ''session_123''),
             (''organizationId'', JStr ''org_123''), (''role'', JStr ''admin''),
             (''roles'', JArr [JStr ''admin'', JStr ''user'']),
             (''permissions'', JArr [JStr ''read'', JStr ''write'']),
             (''entitlements'', JArr [JStr ''feature_a'']),
             (''featureFlags'', JArr [JStr ''flag_1'']),
             (''impersonator'', JUndefined)] ''accessToken''
   \<and> \<not> has_key (getAuthAction fullAuth JUndefined) ''accessToken''
   \<and> \<not> has_key [(''user'', mockUser), (''sessionId'', JStr ''new_session''),
                  (''organizationId'', JStr ''org_456''), (''featureFlags'', JArr [JStr ''flag_2''])]
          ''accessToken''"
proof -
  have a: "has_key fullAuth ''accessToken''"
    by (simp add: has_key_def fullAuth_def)
  have m: "\<not> has_key (sendContext_auth ch) ''accessToken''"
    if "authkitMiddleware False None (Resolved fullAuth) = (True, Resolved ch)" for ch
    using that sanitized_payloads_have_no_accessToken by blast
  have g: "\<not> has_key (getAuthAction fullAuth JUndefined) ''accessToken''"
    using sanitized_payloads_have_no_accessToken by blast
  have r: "\<not> has_key r ''accessToken''"
    if "refreshAuthAction (mock_authkit refreshedAuth) fullAuth JUndefined = (cs, Resolved r)"
    for cs r
    using that sanitized_payloads_have_no_accessToken by blast
  from a m [OF middleware_fullAuth] g r [OF refresh_fullAuth]
  show ?thesis by simp
qed

text \<open>
  C2. When the resolver returns a null user, the hydration payload the middleware
  builds is the object \<open>{ user: null }\<close>, with no other property.
\<close>

theorem null_user_hydration_payload:
  assumes "get_prop authResult ''user'' = JNull"
      and "authkitMiddleware cv vc (Resolved authResult) = (cv', Resolved ch)"
  shows "sendContext_auth ch = [(''user'', JNull)]
         \<and> (\<forall>k. has_key (sendContext_auth ch) k = (k = ''user''))"
proof -
  from middleware_payload [OF assms(2)]
  have "sendContext_auth ch = hydratedAuth authResult" by simp
  with assms(1) have "sendContext_auth ch = no_user"
    by (simp add: hydratedAuth_def)
  then show ?thesis
    by (simp add: has_key_no_user) (simp add: no_user_def)
qed

theorem null_user_hydration_payload_witness:
  "get_prop [(''user'', JNull)] ''user'' = JNull
   \<and> authkitMiddleware False None (Resolved [(''user'', JNull)])
       = (True, Resolved \<lparr>context_auth = [(''user'', JNull)],
                          sendContext_auth = [(''user'', JNull)]\<rparr>)
   \<and> \<not> has_key [(''user'', JNull)] ''sessionId''"
proof -
  have a: "get_prop [(''user'', JNull)] ''user'' = JNull"
    by (simp add: get_prop_def)
  have b: "authkitMiddleware False None (Resolved [(''user'', JNull)])
       = (True, Resolved \<lparr>context_auth = [(''user'', JNull)],
                          sendContext_auth = [(''user'', JNull)]\<rparr>)"
    by (simp add: authkitMiddleware_def hydratedAuth_def get_prop_def no_user_def)
  from null_user_hydration_payload [OF a b]
  have "\<not> has_key [(''user'', JNull)] ''sessionId''" by simp
  with a b show ?thesis by simp
qed

text \<open>
  C3, as stated, fails: the payload follows the result it is built from. The
  middleware copies a missing \<open>sessionId\<close> as \<open>undefined\<close> beside a user, and
  \<open>refreshAuthAction\<close> returns the projection of a refresh result that has a user
  and no \<open>sessionId\<close> without adding one.
\<close>

theorem sessionId_iff_user_counterexample:
  "authkitMiddleware False None (Resolved [(''user'', mockUser)])
     = (True, Resolved \<lparr>context_auth = [(''user'', mockUser)],
          sendContext_auth =
            [(''user'', mockUser), (''sessionId'', JUndefined),
             (''organizationId'', JUndefined), (''role'', JUndefined), (''roles'', JUndefined),
             (''permissions'', JUndefined), (''entitlements'', JUndefined),
             (''featureFlags'', JUndefined), (''impersonator'', JUndefined)]\<rparr>)
   \<and> refreshAuthAction
        (mock_authkit [(''user'', mockUser), (''accessToken'', JStr ''token_2'')])
        fullAuth JUndefined
      = ([GetSession,
          RefreshSession [(''accessToken'', JStr ''token_1''), (''refreshToken'', JStr ''refresh_1''),
                          (''user'', mockUser), (''impersonator'', JUndefined)] JUndefined],
         Resolved [(''user'', mockUser), (''featureFlags'', JUndefined)])
   \<and> mockUser \<noteq> JNull
   \<and> \<not> sessionId_iff_user
          [(''user'', mockUser), (''sessionId'', JUndefined),
           (''organizationId'', JUndefined), (''role'', JUndefined), (''roles'', JUndefined),
           (''permissions'', JUndefined), (''entitlements'', JUndefined),
           (''featureFlags'', JUndefined), (''impersonator'', JUndefined)]
   \<and> \<not> sessionId_iff_user [(''user'', mockUser), (''featureFlags'', JUndefined)]"
proof -
  have n: "mockUser \<noteq> JNull"
    by (rule truthy_not_null [OF truthy_mockUser])
  then show ?thesis
    by (simp add: authkitMiddleware_def hydratedAuth_def refreshAuthAction_def mock_authkit_def
        js_not_def fullAuth_def get_prop_def truthy_mockUser sessionId_iff_user_def)
qed

text \<open>
  C3, amended. Provided the result a payload is built from has a defined
  \<open>sessionId\<close> whenever it has a user (the resolver's result for the middleware, the
  result of the refresh operation for \<open>refreshAuthAction\<close> and
  \<open>switchToOrganizationAction\<close>), the payload has a defined \<open>sessionId\<close> if and only
  if its \<open>user\<close> is not null.
\<close>

theorem sessionId_iff_user_under_guarantee:
  assumes "resolver_guarantee authResult"
      and "\<forall>arg org result. refreshSession ak arg org = Resolved result
             \<longrightarrow> resolver_guarantee result"
  shows "(authkitMiddleware cv vc (Resolved authResult) = (cv', Resolved ch)
            \<longrightarrow> sessionId_iff_user (sendContext_auth ch))
         \<and> (refreshAuthAction ak auth options = (cs, Resolved r) \<longrightarrow> sessionId_iff_user r)
         \<and> (switchToOrganizationAction ak auth data = (cs', Resolved r')
              \<longrightarrow> sessionId_iff_user r')"
proof (intro conjI impI)
  assume "authkitMiddleware cv vc (Resolved authResult) = (cv', Resolved ch)"
  from middleware_payload [OF this]
  have p: "sendContext_auth ch = hydratedAuth authResult" by simp
  show "sessionId_iff_user (sendContext_auth ch)"
  proof (cases "truthy (get_prop authResult ''user'')")
    case True
    with assms(1) truthy_not_null [OF True] show ?thesis
      by (simp add: p hydratedAuth_def sessionId_iff_user_def resolver_guarantee_def get_prop_def)
  next
    case False
    then show ?thesis
      by (simp add: p hydratedAuth_def sessionId_iff_user_def get_prop_no_user)
  qed
next
  assume "refreshAuthAction ak auth options = (cs, Resolved r)"
  from refreshAuthAction_resolved [OF this] assms(2)
  show "sessionId_iff_user r"
    by (auto simp: projection_session) (simp add: sessionId_iff_user_def get_prop_no_user)
next
  assume "switchToOrganizationAction ak auth data = (cs', Resolved r')"
  from switchToOrganizationAction_resolved [OF this] assms(2)
  show "sessionId_iff_user r'"
    by (auto simp: projection_session) (simp add: sessionId_iff_user_def get_prop_no_user)
qed

theorem sessionId_iff_user_under_guarantee_witness:
  "resolver_guarantee fullAuth
   \<and> refreshSession (mock_authkit refreshedAuth) [] JUndefined = Resolved refreshedAuth
   \<and> resolver_guarantee refreshedAuth
   \<and> sessionId_iff_user
        [(''user'', mockUser), (''sessionId'', JStr ''session_123''),
         (''organizationId'', JStr ''org_123''), (''role'', JStr ''admin''),
         (''roles'', JArr [JStr ''admin'', JStr ''user'']),
         (''permissions'', JArr [JStr ''read'', JStr ''write'']),
         (''entitlements'', JArr [JStr ''feature_a'']),
         (''featureFlags'', JArr [JStr ''flag_1'']),
         (''impersonator'', JUndefined)]
   \<and> sessionId_iff_user
        [(''user'', mockUser), (''sessionId'', JStr ''new_session''),
         (''organizationId'', JStr ''org_456''), (''featureFlags'', JArr [JStr ''flag_2''])]"
proof -
  have a: "resolver_guarantee fullAuth"
    by (simp add: resolver_guarantee_def fullAuth_def get_prop_def)
  have b: "\<forall>arg org result. refreshSession (mock_authkit refreshedAuth) arg org = Resolved result
             \<longrightarrow> resolver_guarantee result"
    by (simp add: mock_authkit_def resolver_guarantee_def refreshedAuth_def get_prop_def)
  note t = sessionId_iff_user_under_guarantee [OF a b]
  have m: "sessionId_iff_user (sendContext_auth ch)"
    if "authkitMiddleware False None (Resolved fullAuth) = (True, Resolved ch)" for ch
    using that t by blast
  have r: "sessionId_iff_user r"
    if "switchToOrganizationAction (mock_authkit refreshedAuth) fullAuth
          [(''organizationId'', JStr ''org_456'')] = (cs, Resolved r)" for cs r
    using that t by blast
  have c: "refreshSession (mock_authkit refreshedAuth) [] JUndefined = Resolved refreshedAuth"
    by (simp add: mock_authkit_def)
  from a c b m [OF middleware_fullAuth] r [OF switch_fullAuth]
  show ?thesis by simp
qed

section \<open>Preconditions of the refresh actions\<close>

text \<open>Where the two actions agree: without a user or an access token, and without a
  session carrying a refresh token, both return \<open>{ user: null }\<close> and never call the
  refresh operation.\<close>

lemma refreshAuthAction_short_circuit:
  "js_not (get_prop auth ''user'') \<or> js_not (get_prop auth ''accessToken'')
     \<or> js_not (get_prop auth ''sessionId'')
   \<Longrightarrow> refreshAuthAction ak auth options = ([], Resolved no_user)"
  by (simp add: refreshAuthAction_def)

lemma switchToOrganizationAction_short_circuit:
  "js_not (get_prop auth ''user'') \<or> js_not (get_prop auth ''accessToken'')
   \<Longrightarrow> switchToOrganizationAction ak auth data = ([], Resolved no_user)"
  by (simp add: switchToOrganizationAction_def)

lemma switchToOrganizationAction_no_refresh_token:
  assumes "getSession ak = Resolved session"
      and "js_not session \<or> js_not (opt_chain session ''refreshToken'')"
  shows "switchToOrganizationAction ak auth data = ([], Resolved no_user)
         \<or> switchToOrganizationAction ak auth data = ([GetSession], Resolved no_user)"
  using assms by (simp add: switchToOrganizationAction_def)

text \<open>
  C4. \<open>switchToOrganizationAction\<close> does not test the session id. For a context
  with a user and an access token and no \<open>sessionId\<close>, \<open>refreshAuthAction\<close> returns
  \<open>{ user: null }\<close> without a call, while \<open>switchToOrganizationAction\<close> loads the
  session, calls the refresh operation and returns its projection.
\<close>

theorem switchToOrganization_ignores_missing_sessionId:
  "switchToOrganizationAction (mock_authkit refreshedAuth)
       [(''user'', mockUser), (''accessToken'', JStr ''token_1'')]
       [(''organizationId'', JStr ''org_456'')]
     = ([GetSession,
         RefreshSession [(''accessToken'', JStr ''token_1''), (''refreshToken'', JStr ''refresh_1''),
                         (''user'', mockUser), (''impersonator'', JUndefined)] (JStr ''org_456'')],
        Resolved [(''user'', mockUser), (''sessionId'', JStr ''new_session''),
                  (''organizationId'', JStr ''org_456''), (''featureFlags'', JArr [JStr ''flag_2''])])
   \<and> refreshAuthAction (mock_authkit refreshedAuth)
         [(''user'', mockUser), (''accessToken'', JStr ''token_1'')]
         (JObj [(''organizationId'', JStr ''org_456'')])
       = ([], Resolved [(''user'', JNull)])"
  by (simp add: switchToOrganizationAction_def refreshAuthAction_def mock_authkit_def js_not_def
      refreshedAuth_def get_prop_def truthy_mockUser no_user_def)

section \<open>Raw claims and feature flags\<close>

text \<open>The middleware payload and the projections of the two refresh actions have no
  \<open>claims\<close> property, and their \<open>featureFlags\<close> is \<open>claims?.feature_flags\<close> of the
  result they are built from.\<close>

lemma hydratedAuth_claims:
  "\<not> has_key (hydratedAuth authResult) ''claims''
   \<and> (if truthy (get_prop authResult ''user'')
       then get_prop (hydratedAuth authResult) ''featureFlags''
              = opt_chain (get_prop authResult ''claims'') ''feature_flags''
       else hydratedAuth authResult = no_user)"
  by (simp add: hydratedAuth_def has_key_def get_prop_def no_user_def)

lemma projection_claims:
  "\<not> has_key (AList.update ''featureFlags'' v
                (AList.delete ''claims'' (AList.delete ''accessToken'' result))) ''claims''
   \<and> get_prop (AList.update ''featureFlags'' v
                (AList.delete ''claims'' (AList.delete ''accessToken'' result))) ''featureFlags'' = v"
  by (simp add: has_key_update has_key_delete get_prop_update)

lemma refreshAuthAction_claims:
  assumes "refreshAuthAction ak auth options = (cs, Resolved r)"
  shows "\<not> has_key r ''claims''"
  using refreshAuthAction_resolved [OF assms]
  by (auto simp: has_key_no_user has_key_update has_key_delete)

lemma switchToOrganizationAction_claims:
  assumes "switchToOrganizationAction ak auth data = (cs, Resolved r)"
  shows "\<not> has_key r ''claims''"
  using switchToOrganizationAction_resolved [OF assms]
  by (auto simp: has_key_no_user has_key_update has_key_delete)

text \<open>
  C5. \<open>getAuthAction\<close> removes the access token only. For a signed-in context with
  claims its result still has the raw \<open>claims\<close> object and has no \<open>featureFlags\<close>
  property.
\<close>

theorem getAuthAction_keeps_raw_claims:
  "getAuthAction fullAuth JUndefined
     = [(''user'', mockUser), (''sessionId'', JStr ''session_123''),
        (''organizationId'', JStr ''org_123''), (''role'', JStr ''admin''),
        (''roles'', JArr [JStr ''admin'', JStr ''user'']),
        (''permissions'', JArr [JStr ''read'', JStr ''write'']),
        (''entitlements'', JArr [JStr ''feature_a'']),
        (''claims'', JObj [(''feature_flags'', JArr [JStr ''flag_1''])])]
   \<and> has_key (getAuthAction fullAuth JUndefined) ''claims''
   \<and> \<not> has_key (getAuthAction fullAuth JUndefined) ''featureFlags''"
  by (simp add: getAuth_fullAuth has_key_def)

section \<open>The provider's operations\<close>








lemma switch_rejected_renders:
  "renders s (fst (handleSwitchToOrganization (Rejected e)))
     = [s\<lparr>loading := True\<rparr>, s\<lparr>loading := False\<rparr>]"
  by (cases s) (simp add: handleSwitchToOrganization_def commit_def)

lemma switch_cleared_renders:
  assumes "js_not (get_prop auth ''user'')"
  shows "renders s (fst (handleSwitchToOrganization (Resolved auth)))
     = [s\<lparr>loading := True\<rparr>,
        \<lparr>user = JNull, sessionId = JUndefined, organizationId = JUndefined,
         role = JUndefined, roles = JUndefined, permissions = JUndefined,
         entitlements = JUndefined, featureFlags = JUndefined, impersonator = JUndefined,
         loading = False\<rparr>]"
  using assms by (cases s) (simp add: handleSwitchToOrganization_def commit_def)

lemma switch_overwritten_renders:
  assumes "\<not> js_not (get_prop auth ''user'')"
  shows "renders s (fst (handleSwitchToOrganization (Resolved auth)))
     = [s\<lparr>loading := True\<rparr>,
        \<lparr>user = get_prop auth ''user'', sessionId = get_prop auth ''sessionId'',
         organizationId = get_prop auth ''organizationId'', role = get_prop auth ''role'',
         roles = get_prop auth ''roles'', permissions = get_prop auth ''permissions'',
         entitlements = get_prop auth ''entitlements'',
         featureFlags = get_prop auth ''featureFlags'',
         impersonator = get_prop auth ''impersonator'', loading = False\<rparr>]"
  using assms by (cases s) (simp add: handleSwitchToOrganization_def commit_def)

lemma initial_state_hydrated:
  "initial_state (Some (hydratedAuth fullAuth))
     = \<lparr>user = mockUser, sessionId = JStr ''session_123'', organizationId = JStr ''org_123'',
        role = JStr ''admin'', roles = JArr [JStr ''admin'', JStr ''user''],
        permissions = JArr [JStr ''read'', JStr ''write''],
        entitlements = JArr [JStr ''feature_a''], featureFlags = JArr [JStr ''flag_1''],
        impersonator = JUndefined, loading = False\<rparr>"
  by (simp add: initial_state_def hydratedAuth_def fullAuth_def get_prop_def has_key_def
      truthy_mockUser)

text \<open>
  C7. When \<open>switchToOrganizationAction\<close> resolves with a result that has no user,
  \<open>switchToOrganization\<close> clears all nine mirrored fields in the one batch that
  follows the call, so that consumers see them cleared together; when the result has a
  user, the same batch overwrites all nine with the properties of the result. On every
  path, a rejection included, \<open>loading\<close> ends false.
\<close>

theorem switchToOrganization_contract:
  "(js_not (get_prop auth ''user'') \<longrightarrow>
      fst (handleSwitchToOrganization (Resolved auth))
        = [[SetLoading True],
           [SetUser JNull, SetSessionId JUndefined, SetOrganizationId JUndefined,
            SetRole JUndefined, SetRoles JUndefined, SetPermissions JUndefined,
            SetEntitlements JUndefined, SetFeatureFlags JUndefined,
            SetImpersonator JUndefined, SetLoading False]]
      \<and> renders s (fst (handleSwitchToOrganization (Resolved auth)))
        = [s\<lparr>loading := True\<rparr>,
           \<lparr>user = JNull, sessionId = JUndefined, organizationId = JUndefined,
            role = JUndefined, roles = JUndefined, permissions = JUndefined,
            entitlements = JUndefined, featureFlags = JUndefined, impersonator = JUndefined,
            loading = False\<rparr>])
   \<and> (\<not> js_not (get_prop auth ''user'') \<longrightarrow>
      renders s (fst (handleSwitchToOrganization (Resolved auth)))
        = [s\<lparr>loading := True\<rparr>,
           \<lparr>user = get_prop auth ''user'', sessionId = get_prop auth ''sessionId'',
            organizationId = get_prop auth ''organizationId'', role = get_prop auth ''role'',
            roles = get_prop auth ''roles'', permissions = get_prop auth ''permissions'',
            entitlements = get_prop auth ''entitlements'',
            featureFlags = get_prop auth ''featureFlags'',
            impersonator = get_prop auth ''impersonator'', loading = False\<rparr>])
   \<and> renders s (fst (handleSwitchToOrganization (Rejected e)))
        = [s\<lparr>loading := True\<rparr>, s\<lparr>loading := False\<rparr>]
   \<and> loading (last (renders s (fst (handleSwitchToOrganization action)))) = False
   \<and> (\<exists>v. snd (handleSwitchToOrganization action) = Resolved v)"
proof (intro conjI impI)
  assume a: "js_not (get_prop auth ''user'')"
  then show "fst (handleSwitchToOrganization (Resolved auth))
        = [[SetLoading True],
           [SetUser JNull, SetSessionId JUndefined, SetOrganizationId JUndefined,
            SetRole JUndefined, SetRoles JUndefined, SetPermissions JUndefined,
            SetEntitlements JUndefined, SetFeatureFlags JUndefined,
            SetImpersonator JUndefined, SetLoading False]]"
    by (simp add: handleSwitchToOrganization_def)
  from a show "renders s (fst (handleSwitchToOrganization (Resolved auth)))
        = [s\<lparr>loading := True\<rparr>,
           \<lparr>user = JNull, sessionId = JUndefined, organizationId = JUndefined,
            role = JUndefined, roles = JUndefined, permissions = JUndefined,
            entitlements = JUndefined, featureFlags = JUndefined, impersonator = JUndefined,
            loading = False\<rparr>]"
    by (rule switch_cleared_renders)
next
  assume "\<not> js_not (get_prop auth ''user'')"
  then show "renders s (fst (handleSwitchToOrganization (Resolved auth)))
        = [s\<lparr>loading := True\<rparr>,
           \<lparr>user = get_prop auth ''user'', sessionId = get_prop auth ''sessionId'',
            organizationId = get_prop auth ''organizationId'', role = get_prop auth ''role'',
            roles = get_prop auth ''roles'', permissions = get_prop auth ''permissions'',
            entitlements = get_prop auth ''entitlements'',
            featureFlags = get_prop auth ''featureFlags'',
            impersonator = get_prop auth ''impersonator'', loading = False\<rparr>]"
    by (rule switch_overwritten_renders)
next
  show "renders s (fst (handleSwitchToOrganization (Rejected e)))
        = [s\<lparr>loading := True\<rparr>, s\<lparr>loading := False\<rparr>]"
    by (rule switch_rejected_renders)
  show "loading (last (renders s (fst (handleSwitchToOrganization action)))) = False"
  proof (cases action)
    case (Resolved auth')
    then show ?thesis
      by (cases "js_not (get_prop auth' ''user'')")
         (simp_all add: switch_cleared_renders switch_overwritten_renders)
  next
    case (Rejected e')
    then show ?thesis by (simp add: switch_rejected_renders)
  qed
  show "\<exists>v. snd (handleSwitchToOrganization action) = Resolved v"
    by (cases action) (simp_all add: handleSwitchToOrganization_def)
qed

theorem switchToOrganization_contract_witness:
  "js_not (get_prop [(''user'', JNull)] ''user'')
   \<and> renders (initial_state (Some (hydratedAuth fullAuth)))
        (fst (handleSwitchToOrganization (Resolved [(''user'', JNull)])))
      = [\<lparr>user = mockUser, sessionId = JStr ''session_123'', organizationId = JStr ''org_123'',
          role = JStr ''admin'', roles = JArr [JStr ''admin'', JStr ''user''],
          permissions = JArr [JStr ''read'', JStr ''write''],
          entitlements = JArr [JStr ''feature_a''], featureFlags = JArr [JStr ''flag_1''],
          impersonator = JUndefined, loading = True\<rparr>,
         \<lparr>user = JNull, sessionId = JUndefined, organizationId = JUndefined,
          role = JUndefined, roles = JUndefined, permissions = JUndefined,
          entitlements = JUndefined, featureFlags = JUndefined, impersonator = JUndefined,
          loading = False\<rparr>]
   \<and> \<not> js_not (get_prop [(''user'', mockUser), (''sessionId'', JStr ''new_session''),
                  (''organizationId'', JStr ''org_456''), (''featureFlags'', JArr [JStr ''flag_2''])]
             ''user'')
   \<and> renders (initial_state (Some (hydratedAuth fullAuth)))
        (fst (handleSwitchToOrganization
           (Resolved [(''user'', mockUser), (''sessionId'', JStr ''new_session''),
                  (''organizationId'', JStr ''org_456''), (''featureFlags'', JArr [JStr ''flag_2''])])))
      = [\<lparr>user = mockUser, sessionId = JStr ''session_123'', organizationId = JStr ''org_123'',
          role = JStr ''admin'', roles = JArr [JStr ''admin'', JStr ''user''],
          permissions = JArr [JStr ''read'', JStr ''write''],
          entitlements = JArr [JStr ''feature_a''], featureFlags = JArr [JStr ''flag_1''],
          impersonator = JUndefined, loading = True\<rparr>,
         \<lparr>user = mockUser, sessionId = JStr ''new_session'', organizationId = JStr ''org_456'',
          role = JUndefined, roles = JUndefined, permissions = JUndefined,
          entitlements = JUndefined, featureFlags = JArr [JStr ''flag_2''],
          impersonator = JUndefined, loading = False\<rparr>]"
proof -
  let ?s = "initial_state (Some (hydratedAuth fullAuth))"
  let ?r = "[(''user'', mockUser), (''sessionId'', JStr ''new_session''),
             (''organizationId'', JStr ''org_456''), (''featureFlags'', JArr [JStr ''flag_2''])]"
  have a: "js_not (get_prop [(''user'', JNull)] ''user'')"
    by (simp add: js_not_def get_prop_def)
  have b: "\<not> js_not (get_prop ?r ''user'')"
    by (simp add: js_not_def get_prop_def truthy_mockUser)
  from a switchToOrganization_contract [where auth = "[(''user'', JNull)]" and s = ?s]
  have c: "renders ?s (fst (handleSwitchToOrganization (Resolved [(''user'', JNull)])))
      = [?s\<lparr>loading := True\<rparr>,
         \<lparr>user = JNull, sessionId = JUndefined, organizationId = JUndefined,
          role = JUndefined, roles = JUndefined, permissions = JUndefined,
          entitlements = JUndefined, featureFlags = JUndefined, impersonator = JUndefined,
          loading = False\<rparr>]"
    by blast
  from b switchToOrganization_contract [where auth = ?r and s = ?s]
  have d: "renders ?s (fst (handleSwitchToOrganization (Resolved ?r)))
      = [?s\<lparr>loading := True\<rparr>,
         \<lparr>user = get_prop ?r ''user'', sessionId = get_prop ?r ''sessionId'',
          organizationId = get_prop ?r ''organizationId'', role = get_prop ?r ''role'',
          roles = get_prop ?r ''roles'', permissions = get_prop ?r ''permissions'',
          entitlements = get_prop ?r ''entitlements'',
          featureFlags = get_prop ?r ''featureFlags'',
          impersonator = get_prop ?r ''impersonator'', loading = False\<rparr>]"
    by blast
  have e: "?s\<lparr>loading := True\<rparr>
      = \<lparr>user = mockUser, sessionId = JStr ''session_123'', organizationId = JStr ''org_123'',
          role = JStr ''admin'', roles = JArr [JStr ''admin'', JStr ''user''],
          permissions = JArr [JStr ''read'', JStr ''write''],
          entitlements = JArr [JStr ''feature_a''], featureFlags = JArr [JStr ''flag_1''],
          impersonator = JUndefined, loading = True\<rparr>"
    by (simp add: initial_state_hydrated)
  have f: "\<lparr>user = get_prop ?r ''user'', sessionId = get_prop ?r ''sessionId'',
          organizationId = get_prop ?r ''organizationId'', role = get_prop ?r ''role'',
          roles = get_prop ?r ''roles'', permissions = get_prop ?r ''permissions'',
          entitlements = get_prop ?r ''entitlements'',
          featureFlags = get_prop ?r ''featureFlags'',
          impersonator = get_prop ?r ''impersonator'', loading = False\<rparr>
      = \<lparr>user = mockUser, sessionId = JStr ''new_session'', organizationId = JStr ''org_456'',
          role = JUndefined, roles = JUndefined, permissions = JUndefined,
          entitlements = JUndefined, featureFlags = JArr [JStr ''flag_2''],
          impersonator = JUndefined, loading = False\<rparr>"
    by (simp add: get_prop_def)
  from a b c d show ?thesis
    unfolding e f by blast
qed

section \<open>Sign-out\<close>

lemma str_includes_iff: "str_includes s n = (\<exists>p q. s = p @ n @ q)"
proof (induction s)
  case Nil
  show ?case by auto
next
  case (Cons c cs)
  show ?case
  proof
    assume "str_includes (c # cs) n"
    then consider "prefix n (c # cs)" | "str_includes cs n" by auto
    then show "\<exists>p q. c # cs = p @ n @ q"
    proof cases
      case 1
      then obtain q where "c # cs = n @ q" by (auto simp: prefix_def)
      then have "c # cs = [] @ n @ q" by simp
      then show ?thesis by blast
    next
      case 2
      with Cons.IH obtain p q where "cs = p @ n @ q" by blast
      then have "c # cs = (c # p) @ n @ q" by simp
      then show ?thesis by blast
    qed
  next
    assume "\<exists>p q. c # cs = p @ n @ q"
    then obtain p q where e: "c # cs = p @ n @ q" by blast
    show "str_includes (c # cs) n"
    proof (cases p)
      case Nil
      with e have "prefix n (c # cs)" by (simp add: prefix_def)
      then show ?thesis by simp
    next
      case (Cons a p')
      with e have "cs = p' @ n @ q" by simp
      with Cons.IH have "str_includes cs n" by blast
      then show ?thesis by simp
    qed
  qed
qed

text \<open>What \<open>handleSignOut\<close> does with a redirect that carries a non-empty \<open>Location\<close>,
  and with everything else the server function throws.\<close>

lemma handleSignOut_redirect:
  assumes "location \<noteq> []"
  shows "handleSignOut host (Rejected (ThrownResponse (Some location)))
     = (if prefix ''http'' location \<and> \<not> str_includes location host
        then ([LocationHref location], Resolved JUndefined)
        else ([RouterNavigate location], Resolved JUndefined))"
  using assms by (simp add: handleSignOut_def)

lemma handleSignOut_rethrows:
  "handleSignOut host (Rejected (ThrownError message)) = ([], Rejected (ThrownError message))"
  "handleSignOut host (Rejected (ThrownOther v)) = ([], Rejected (ThrownOther v))"
  "handleSignOut host (Rejected (ThrownResponse None)) = ([], Rejected (ThrownResponse None))"
  "handleSignOut host (Rejected (ThrownResponse (Some [])))
     = ([], Rejected (ThrownResponse (Some [])))"
  by (simp_all add: handleSignOut_def)

lemma logout_url_includes_host: "str_includes logout_url ''app.example.com''"
  unfolding str_includes_iff
proof (intro exI)
  show "logout_url
      = ''https://api.workos.com/user_management/sessions/logout?session_id=session_123&return_to=https%3A%2F%2F''
        @ ''app.example.com'' @ ''%2F''"
    by (simp add: logout_url_def)
qed

text \<open>
  C8. The destination is classified by a substring test, not by its host. On a page
  of host \<open>app.example.com\<close>, the redirect to the identity provider's logout URL, whose
  host is \<open>api.workos.com\<close> and whose \<open>return_to\<close> parameter names the application,
  is handed to the router as an internal route.
\<close>

theorem signOut_misclassifies_logout_url:
  "handleSignOut ''app.example.com'' (Rejected (ThrownResponse (Some logout_url)))
     = ([RouterNavigate logout_url], Resolved JUndefined)
   \<and> spec_host_of logout_url = Some ''api.workos.com''
   \<and> spec_external ''app.example.com'' logout_url"
proof -
  have n: "logout_url \<noteq> []"
    by (simp add: logout_url_def)
  have h: "spec_host_of logout_url = Some ''api.workos.com''"
    by (simp add: spec_host_of_def logout_url_def)
  from handleSignOut_redirect [OF n, of "''app.example.com''"] logout_url_includes_host h
  show ?thesis
    by (simp add: spec_external_def)
qed

section \<open>Session-expiry watcher\<close>














lemma not_failed_to_fetch: "\<not> str_includes ''Session expired'' ''Failed to fetch''"
  by simp




text \<open>
  C10. When a pending \<open>checkSessionAction\<close> call resolves with \<open>false\<close>, neither the
  callback nor a reload follows: the error raised for it has the message
  \<open>Session expired\<close>, which does not contain \<open>Failed to fetch\<close>, and the \<open>catch\<close>
  block acts on no other error.
\<close>

theorem expired_session_triggers_nothing:
  "effects (step opt w (Settle (Resolved (JBool False)))) = effects w
   \<and> on_catch opt (ThrownError ''Session expired'') = []
   \<and> effects (foldl (step opt) w [Fire visible, Settle (Resolved (JBool False))]) = effects w"
proof -
  have c: "on_catch opt' (ThrownError ''Session expired'') = []" for opt'
    by (simp add: on_catch_def)
  have s: "effects (step opt w' (Settle (Resolved (JBool False)))) = effects w'" for w'
    by (cases opt) (simp_all add: Let_def js_not_def c)
  have f: "effects (step opt w (Fire visible)) = effects w"
    by (cases opt) simp_all
  from c [of opt] s [of w] s [of "step opt w (Fire visible)"] f show ?thesis by simp
qed

end
